theory Spec2Isabelle
  imports Complex_Main
begin

section \<open>Data model\<close>

text \<open>
  The glyph metrics of \<^verbatim>\<open>truetype.go\<close>. All seven fields are Go \<^verbatim>\<open>int\<close>s
  (64 bit); none of the arithmetic on them can leave that range, so they are HOL integers.
  The fields \<^verbatim>\<open>x\<close> and \<^verbatim>\<open>y\<close> are called \<open>char_x\<close> and \<open>char_y\<close> here.
\<close>

record character =
  char_x :: int
  char_y :: int
  width :: int
  height :: int
  advance :: int
  bearingH :: int
  bearingV :: int

text \<open>
  The type \<open>'f\<close> stands for \<^verbatim>\<open>float32\<close>. Its addition, subtraction, multiplication and
  division are the operations of the syntactic classes only: no law of arithmetic is assumed
  of them, so whatever is proved below holds for rounding arithmetic as well as for exact
  arithmetic. The conversion \<^verbatim>\<open>float32(n)\<close> of an integer is a parameter called
  \<open>float32\<close> of every function that converts.
\<close>

record 'f color =
  color_r :: 'f
  color_g :: 'f
  color_b :: 'f
  color_a :: 'f

type_synonym 'f point = "'f \<times> 'f \<times> 'f \<times> 'f"

record 'f Font =
  fontChar :: "character list"
  vao :: nat
  vbo :: nat
  program :: nat
  textureID :: nat
  color :: "'f color"
  atlasWidth :: 'f
  atlasHeight :: 'f

datatype Direction = LeftToRight | RightToLeft | TopToBottom

text \<open>
  A Go call either panics or returns. An \<^verbatim>\<open>error\<close> result is a value:
  \<open>None\<close> is \<^verbatim>\<open>nil\<close>.
\<close>

datatype 'a result = Panics | Returns 'a

datatype error = Error string

text \<open>The calls that \<^verbatim>\<open>Printf\<close> makes on the OpenGL binding, in the order it makes them.\<close>

datatype 'f gl_call =
    Enable_BLEND
  | BlendFunc_SRC_ALPHA_ONE_MINUS_SRC_ALPHA
  | UseProgram nat
  | Uniform4f_textColor nat 'f 'f 'f 'f
  | BindVertexArray nat
  | ActiveTexture_TEXTURE0
  | BindTexture_TEXTURE_2D nat
  | BindBuffer_ARRAY_BUFFER nat
  | BufferData_ARRAY_BUFFER int "'f point list"
  | DrawArrays_TRIANGLES int int
  | Disable_BLEND

section \<open>Machine integers\<close>

text \<open>Conversion to \<^verbatim>\<open>int32\<close>: the value is kept modulo \<open>2 ^ 32\<close>, read as two's complement.\<close>

definition s32 :: "int \<Rightarrow> int" where
  "s32 n = (n + 2147483648) mod 4294967296 - 2147483648"

section \<open>Text layout: \<^verbatim>\<open>Width\<close> and \<^verbatim>\<open>Printf\<close>\<close>

text \<open>
  Both functions first format their arguments with \<^verbatim>\<open>fmt.Sprintf\<close> and convert the string
  to runes; the models take the resulting rune slice \<open>indices\<close>. A rune is an
  \<^verbatim>\<open>int32\<close>; the comparison \<^verbatim>\<open>int(runeIndex)-int(lowChar) > len(f.fontChar)\<close> is made
  on 64-bit integers and the index \<^verbatim>\<open>runeIndex-lowChar\<close> is only formed when
  \<^verbatim>\<open>runeIndex >= lowChar\<close>, so neither wraps.
\<close>

definition lowChar :: int where
  "lowChar = 32"

text \<open>
  The loop of \<^verbatim>\<open>Width\<close>. The state is the accumulated \<^verbatim>\<open>width\<close> and the runes that
  the skip branch has printed on standard output so far. Indexing \<^verbatim>\<open>f.fontChar\<close> at its
  length panics.
\<close>

fun Width_loop ::
  "(int \<Rightarrow> 'f::{plus,times}) \<Rightarrow> 'f Font \<Rightarrow> 'f \<Rightarrow> int list \<Rightarrow> 'f \<times> int list
    \<Rightarrow> ('f \<times> int list) result" where
  "Width_loop float32 f scale [] (w, out) = Returns (w, out)"
| "Width_loop float32 f scale (runeIndex # rest) (w, out) =
     (if runeIndex - lowChar > int (length (fontChar f)) \<or> runeIndex < lowChar
      then Width_loop float32 f scale rest (w, out @ [runeIndex])
      else if nat (runeIndex - lowChar) < length (fontChar f)
      then let ch = fontChar f ! nat (runeIndex - lowChar)
           in Width_loop float32 f scale rest (w + float32 (drop_bit 6 (advance ch)) * scale, out)
      else Panics)"

definition Width ::
  "(int \<Rightarrow> 'f::{zero,plus,times}) \<Rightarrow> 'f Font \<Rightarrow> 'f \<Rightarrow> int list \<Rightarrow> ('f \<times> int list) result" where
  "Width float32 f scale indices =
     (if length indices = 0 then Returns (0, [])
      else Width_loop float32 f scale indices (0, []))"

text \<open>
  The loop of \<^verbatim>\<open>Printf\<close>. The state is the vertex slice \<^verbatim>\<open>coords\<close> and the pen
  position \<^verbatim>\<open>x\<close>.
\<close>

fun Printf_loop ::
  "(int \<Rightarrow> 'f::{plus,minus,times,inverse}) \<Rightarrow> 'f Font \<Rightarrow> 'f \<Rightarrow> 'f \<Rightarrow> int list
    \<Rightarrow> 'f point list \<times> 'f \<Rightarrow> ('f point list \<times> 'f) result" where
  "Printf_loop float32 f y scale [] (coords, x) = Returns (coords, x)"
| "Printf_loop float32 f y scale (runeIndex # rest) (coords, x) =
     (if runeIndex - lowChar > int (length (fontChar f)) \<or> runeIndex < lowChar
      then Printf_loop float32 f y scale rest (coords, x)
      else if nat (runeIndex - lowChar) < length (fontChar f)
      then let ch = fontChar f ! nat (runeIndex - lowChar);
               xpos = x + float32 (bearingH ch) * scale;
               ypos = y - float32 (height ch - bearingV ch) * scale;
               w = float32 (width ch) * scale;
               h = float32 (height ch) * scale;
               x1 = xpos;
               x2 = xpos + w;
               y1 = ypos;
               y2 = ypos + h;
               coords1 = coords @ [(x1, y1, float32 (char_x ch) / atlasWidth f,
                                    float32 (char_y ch) / atlasHeight f)];
               coords2 = coords1 @ [(x2, y1, float32 (char_x ch + width ch) / atlasWidth f,
                                     float32 (char_y ch) / atlasHeight f)];
               coords3 = coords2 @ [(x1, y2, float32 (char_x ch) / atlasWidth f,
                                     float32 (char_y ch + height ch) / atlasHeight f)];
               coords4 = coords3 @ [(x2, y1, float32 (char_x ch + width ch) / atlasWidth f,
                                     float32 (char_y ch) / atlasHeight f)];
               coords5 = coords4 @ [(x1, y2, float32 (char_x ch) / atlasWidth f,
                                     float32 (char_y ch + height ch) / atlasHeight f)];
               coords6 = coords5 @ [(x2, y2, float32 (char_x ch + width ch) / atlasWidth f,
                                     float32 (char_y ch + height ch) / atlasHeight f)]
           in Printf_loop float32 f y scale rest
                (coords6, x + float32 (drop_bit 6 (advance ch)) * scale)
      else Panics)"

text \<open>
  \<^verbatim>\<open>Printf\<close> returns the OpenGL calls it has made together with its outcome. When the loop
  panics, the four calls before the loop have been made and nothing is returned.
\<close>

definition Printf ::
  "(int \<Rightarrow> 'f::{plus,minus,times,inverse}) \<Rightarrow> 'f Font \<Rightarrow> 'f \<Rightarrow> 'f \<Rightarrow> 'f \<Rightarrow> int list
    \<Rightarrow> 'f gl_call list \<times> error option result" where
  "Printf float32 f x y scale indices =
     (if length indices = 0 then ([], Returns None)
      else
        let setup = [Enable_BLEND, BlendFunc_SRC_ALPHA_ONE_MINUS_SRC_ALPHA,
                     UseProgram (program f),
                     Uniform4f_textColor (program f) (color_r (color f)) (color_g (color f))
                       (color_b (color f)) (color_a (color f))]
        in case Printf_loop float32 f y scale indices ([], x) of
             Panics \<Rightarrow> (setup, Panics)
           | Returns (coords, x') \<Rightarrow>
               (setup @
                [BindVertexArray (vao f), ActiveTexture_TEXTURE0,
                 BindTexture_TEXTURE_2D (textureID f), BindBuffer_ARRAY_BUFFER (vbo f),
                 BufferData_ARRAY_BUFFER (int (length coords) * 16) coords,
                 DrawArrays_TRIANGLES 0 (s32 (int (length coords))),
                 BindVertexArray 0, BindTexture_TEXTURE_2D 0, UseProgram 0, Disable_BLEND],
                Returns None))"

section \<open>Building the atlas: \<^verbatim>\<open>LoadTrueTypeFont\<close> and \<^verbatim>\<open>LoadFont\<close>\<close>

subsection \<open>The font library\<close>

text \<open>
  A \<^verbatim>\<open>fixed.Rectangle26_6\<close>: four \<^verbatim>\<open>fixed.Int26_6\<close> coordinates, which are
  \<^verbatim>\<open>int32\<close> values counting 1/64 of a pixel.
\<close>

record Rectangle26_6 =
  Min_X :: int
  Min_Y :: int
  Max_X :: int
  Max_Y :: int

text \<open>
  The parsed font is a value of the freetype library; what the builder asks of it is taken as
  given:
  \<^item> \<open>GlyphBounds ttf size ch\<close> is \<^verbatim>\<open>ttfFace.GlyphBounds(ch)\<close> on the face made for
    \<open>size\<close>: the bounds and the advance, or \<open>None\<close> when \<^verbatim>\<open>ok\<close> is false;
  \<^item> \<open>Bounds ttf s\<close> is \<^verbatim>\<open>ttf.Bounds(s)\<close>;
  \<^item> \<open>DrawString ttf size ch clip pt\<close> is the error of \<^verbatim>\<open>c.DrawString(string(ch), pt)\<close>
    on a context set to \<open>size\<close> and \<open>clip\<close>, given as the integer pixel position handed
    to \<^verbatim>\<open>freetype.Pt\<close>. The pixels it writes into the atlas image are not modelled.
\<close>

record truetype_Font =
  GlyphBounds :: "int \<Rightarrow> int \<Rightarrow> (Rectangle26_6 \<times> int) option"
  Bounds :: "int \<Rightarrow> Rectangle26_6"
  DrawString :: "int \<Rightarrow> int \<Rightarrow> int \<times> int \<times> int \<times> int \<Rightarrow> int \<times> int \<Rightarrow> error option"

text \<open>
  The rest of the outside world: opening a file gives a reader, which is what
  \<^verbatim>\<open>ioutil.ReadAll\<close> will make of it (an error or the bytes); \<^verbatim>\<open>newProgram\<close> compiles the
  shaders; \<^verbatim>\<open>truetype.Parse\<close> parses the bytes; OpenGL hands out a texture, a vertex array
  and a buffer.
\<close>

record world =
  os_Open :: "string \<Rightarrow> error + (error + nat list)"
  newProgram :: "nat \<Rightarrow> error + nat"
  truetype_Parse :: "nat list \<Rightarrow> error + truetype_Font"
  gl_GenTextures :: nat
  gl_GenVertexArrays :: nat
  gl_GenBuffers :: nat

subsection \<open>The line height, a \<^verbatim>\<open>float32\<close> holding an integer\<close>

text \<open>
  \<^verbatim>\<open>lineHeight\<close> is a \<^verbatim>\<open>float32\<close> that only ever holds \<^verbatim>\<open>float32(gh)\<close> for integers
  \<^verbatim>\<open>gh\<close>, so it is modelled by the integer it holds. \<open>float32_of_int n\<close> is that integer:
  \<open>n\<close> rounded to 24 significant bits, ties to even. It is \<open>n\<close> itself up to \<open>2 ^ 24\<close>.
\<close>

fun bit_length :: "nat \<Rightarrow> nat" where
  "bit_length n = (if n = 0 then 0 else Suc (bit_length (n div 2)))"

declare bit_length.simps [simp del]

definition float32_of_int :: "int \<Rightarrow> int" where
  "float32_of_int n =
     (let u = 2 ^ (bit_length (nat \<bar>n\<bar>) - 24); q = n div u; r = n mod u
      in if 2 * r < u then q * u
         else if 2 * r > u then (q + 1) * u
         else if even q then q * u else (q + 1) * u)"

definition max_float32 :: "int \<Rightarrow> int \<Rightarrow> int" where
  "max_float32 a b = (if a > b then a else b)"

subsection \<open>The two loops over the code points\<close>

definition glyphBoundsError :: error where
  "glyphBoundsError = Error ''ttf face glyphBounds error''"

definition margin :: int where
  "margin = 2"

text \<open>\<^verbatim>\<open>f.atlasWidth\<close> and \<^verbatim>\<open>f.atlasHeight\<close> are the \<^verbatim>\<open>float32\<close> of this integer.\<close>

definition atlasSize :: int where
  "atlasSize = 1024"

text \<open>
  The loop counter \<^verbatim>\<open>ch\<close> is a rune, an \<^verbatim>\<open>int32\<close>: \<^verbatim>\<open>ch++\<close> wraps around. With
  \<open>high = 2 ^ 31 - 1\<close> the test \<^verbatim>\<open>ch <= high\<close> never fails, so the loops are partial
  functions: \<open>None\<close> is a loop that does not end.

  The first loop computes \<^verbatim>\<open>lineHeight\<close>. The subtraction is made on \<^verbatim>\<open>Int26_6\<close> and
  wraps; the shift is arithmetic.
\<close>

partial_function (option) lineHeight_loop ::
  "truetype_Font \<Rightarrow> int \<Rightarrow> int \<Rightarrow> int \<Rightarrow> int \<Rightarrow> (error + int) option" where
  "lineHeight_loop ttf scale high ch lineHeight =
     (if ch \<le> high
      then case GlyphBounds ttf scale ch of
             None \<Rightarrow> Some (Inl glyphBoundsError)
           | Some (gBnd, gAdv) \<Rightarrow>
               let gh = drop_bit 6 (s32 (Max_Y gBnd - Min_Y gBnd))
               in lineHeight_loop ttf scale high (s32 (ch + 1))
                    (max_float32 lineHeight (float32_of_int gh))
      else Some (Inr lineHeight))"

text \<open>
  Lines 90 to 104 of \<^verbatim>\<open>truetype.go\<close>: the size of the glyph, with the fallback for a glyph
  without dimensions.
\<close>

definition glyph_size :: "truetype_Font \<Rightarrow> int \<Rightarrow> Rectangle26_6 \<Rightarrow> Rectangle26_6 \<times> int \<times> int" where
  "glyph_size ttf scale gBnd =
     (let gh = drop_bit 6 (s32 (Max_Y gBnd - Min_Y gBnd));
          gw = drop_bit 6 (s32 (Max_X gBnd - Min_X gBnd))
      in if gw = 0 \<or> gh = 0
         then let gBnd' = Bounds ttf scale;
                  gw' = drop_bit 6 (s32 (Max_X gBnd' - Min_X gBnd'));
                  gh' = drop_bit 6 (s32 (Max_Y gBnd' - Min_Y gBnd'))
              in if gw' = 0 \<or> gh' = 0 then (gBnd', 1, 1) else (gBnd', gw', gh')
         else (gBnd, gw, gh))"

text \<open>\<^verbatim>\<open>image.Rect\<close> orders its corners.\<close>

definition image_Rect :: "int \<Rightarrow> int \<Rightarrow> int \<Rightarrow> int \<Rightarrow> int \<times> int \<times> int \<times> int" where
  "image_Rect x0 y0 x1 y1 =
     (if x0 > x1 then x1 else x0, if y0 > y1 then y1 else y0,
      if x0 > x1 then x0 else x1, if y0 > y1 then y0 else y1)"

text \<open>
  Lines 136 to 140 of \<^verbatim>\<open>truetype.go\<close>: the packing cursor after a glyph of width \<open>gw\<close>
  placed at \<open>(x, y)\<close>.
\<close>

definition advance_cursor :: "int \<Rightarrow> int \<Rightarrow> int \<Rightarrow> int \<Rightarrow> int \<times> int" where
  "advance_cursor lineHeight x y gw =
     (let x' = x + gw + margin
      in if x' + gw + margin > atlasSize then (0, y + lineHeight + margin) else (x', y))"

text \<open>
  One pass through the body of the second loop, on the state made of the cursor and of
  \<^verbatim>\<open>f.fontChar\<close>. It ends the build with an error when the bounds or the drawing fail.
\<close>

definition make_glyph ::
  "truetype_Font \<Rightarrow> int \<Rightarrow> int \<Rightarrow> int \<Rightarrow> int \<times> int \<times> character list
    \<Rightarrow> error + int \<times> int \<times> character list" where
  "make_glyph ttf scale lineHeight ch st =
     (case st of (x, y, chars) \<Rightarrow>
      case GlyphBounds ttf scale ch of
        None \<Rightarrow> Inl glyphBoundsError
      | Some (gBnd0, gAdv) \<Rightarrow>
          (case glyph_size ttf scale gBnd0 of (gBnd, gw, gh) \<Rightarrow>
             let gAscent = drop_bit 6 (s32 (- Min_Y gBnd));
                 gdescent = drop_bit 6 (Max_Y gBnd);
                 char = \<lparr>char_x = x, char_y = y, width = gw, height = gh, advance = gAdv,
                          bearingH = drop_bit 6 (Min_X gBnd), bearingV = gdescent\<rparr>;
                 clip = image_Rect x y (x + gw) (y + gh);
                 px = 0 - drop_bit 6 (Min_X gBnd) + x;
                 py = gAscent + y;
                 (x', y') = advance_cursor lineHeight x y gw
             in (case DrawString ttf scale ch clip (px, py) of
                   Some err \<Rightarrow> Inl err
                 | None \<Rightarrow> Inr (x', y', chars @ [char]))))"

partial_function (option) glyph_loop ::
  "truetype_Font \<Rightarrow> int \<Rightarrow> int \<Rightarrow> int \<Rightarrow> int \<Rightarrow> int \<times> int \<times> character list
    \<Rightarrow> (error + int \<times> int \<times> character list) option" where
  "glyph_loop ttf scale lineHeight high ch st =
     (if ch \<le> high
      then case make_glyph ttf scale lineHeight ch st of
             Inl err \<Rightarrow> Some (Inl err)
           | Inr st' \<Rightarrow> glyph_loop ttf scale lineHeight high (s32 (ch + 1)) st'
      else Some (Inr st))"

subsection \<open>The two entry points\<close>

definition SetColor :: "'f Font \<Rightarrow> 'f \<Rightarrow> 'f \<Rightarrow> 'f \<Rightarrow> 'f \<Rightarrow> 'f Font" where
  "SetColor f red green blue alpha =
     f\<lparr>color := \<lparr>color_r = red, color_g = green, color_b = blue, color_a = alpha\<rparr>\<rparr>"

text \<open>
  \<^verbatim>\<open>LoadTrueTypeFont\<close>. The reader \<open>r\<close> is what \<^verbatim>\<open>ioutil.ReadAll\<close> makes of it.
  \<^verbatim>\<open>make([]*character, 0, high-low+1)\<close> panics on a negative capacity, computed on
  \<^verbatim>\<open>int32\<close>. The result is \<open>None\<close> when a loop does not end, \<open>Some Panics\<close> on a panic,
  and otherwise the returned pair: an error, or the font with a \<^verbatim>\<open>nil\<close> error.
\<close>

definition LoadTrueTypeFont ::
  "(int \<Rightarrow> 'f) \<Rightarrow> world \<Rightarrow> nat \<Rightarrow> error + nat list \<Rightarrow> int \<Rightarrow> int \<Rightarrow> int \<Rightarrow> Direction
    \<Rightarrow> (error + 'f Font) result option" where
  "LoadTrueTypeFont float32 w prog r scale low high dir =
     (case r of
        Inl err \<Rightarrow> Some (Returns (Inl err))
      | Inr data \<Rightarrow>
     (case truetype_Parse w data of
        Inl err \<Rightarrow> Some (Returns (Inl err))
      | Inr ttf \<Rightarrow>
     if s32 (high - low + 1) < 0 then Some Panics
     else
     (case lineHeight_loop ttf scale high low 0 of
        None \<Rightarrow> None
      | Some (Inl err) \<Rightarrow> Some (Returns (Inl err))
      | Some (Inr lineHeight) \<Rightarrow>
     (case glyph_loop ttf scale lineHeight high low (margin, margin, []) of
        None \<Rightarrow> None
      | Some (Inl err) \<Rightarrow> Some (Returns (Inl err))
      | Some (Inr (x, y, chars)) \<Rightarrow>
          Some (Returns (Inr
            (SetColor
               \<lparr>fontChar = chars, vao = gl_GenVertexArrays w, vbo = gl_GenBuffers w,
                 program = prog, textureID = gl_GenTextures w,
                 color = \<lparr>color_r = float32 0, color_g = float32 0, color_b = float32 0,
                           color_a = float32 0\<rparr>,
                 atlasWidth = float32 atlasSize, atlasHeight = float32 atlasSize\<rparr>
               (float32 1) (float32 1) (float32 1) (float32 1))))))))"

text \<open>
  \<^verbatim>\<open>LoadFont\<close>: a file that does not open is an error, a shader program that does not
  build is a panic, and the font is built over the code points from 32 to 127.
\<close>

definition LoadFont ::
  "(int \<Rightarrow> 'f) \<Rightarrow> world \<Rightarrow> string \<Rightarrow> int \<Rightarrow> int \<Rightarrow> int \<Rightarrow> nat \<Rightarrow> (error + 'f Font) result option" where
  "LoadFont float32 w file scale windowWidth windowHeight GLSLVersion =
     (case os_Open w file of
        Inl err \<Rightarrow> Some (Returns (Inl err))
      | Inr fd \<Rightarrow>
     (case newProgram w GLSLVersion of
        Inl err \<Rightarrow> Some Panics
      | Inr prog \<Rightarrow> LoadTrueTypeFont float32 w prog fd scale 32 127 LeftToRight))"

subsection \<open>The loops over an explicit list of code points\<close>

text \<open>
  The same two loops, run over a list of code points. While the counter does not wrap, the
  loops above are these run over \<open>[ch..high]\<close>.
\<close>

fun lineHeight_run :: "truetype_Font \<Rightarrow> int \<Rightarrow> int list \<Rightarrow> int \<Rightarrow> error + int" where
  "lineHeight_run ttf scale [] lineHeight = Inr lineHeight"
| "lineHeight_run ttf scale (ch # rest) lineHeight =
     (case GlyphBounds ttf scale ch of
        None \<Rightarrow> Inl glyphBoundsError
      | Some (gBnd, gAdv) \<Rightarrow>
          let gh = drop_bit 6 (s32 (Max_Y gBnd - Min_Y gBnd))
          in lineHeight_run ttf scale rest (max_float32 lineHeight (float32_of_int gh)))"

fun glyph_run ::
  "truetype_Font \<Rightarrow> int \<Rightarrow> int \<Rightarrow> int list \<Rightarrow> int \<times> int \<times> character list
    \<Rightarrow> error + int \<times> int \<times> character list" where
  "glyph_run ttf scale lineHeight [] st = Inr st"
| "glyph_run ttf scale lineHeight (ch # rest) st =
     (case make_glyph ttf scale lineHeight ch st of
        Inl err \<Rightarrow> Inl err
      | Inr st' \<Rightarrow> glyph_run ttf scale lineHeight rest st')"

section \<open>Concrete fonts for evaluation\<close>

definition glyph0 :: character where
  "glyph0 = \<lparr>char_x = 2, char_y = 2, width = 20, height = 30, advance = 1920,
     bearingH = 1, bearingV = 4\<rparr>"

definition glyphA :: character where
  "glyphA = \<lparr>char_x = 2, char_y = 2, width = 28, height = 34, advance = 1920,
     bearingH = 1, bearingV = 0\<rparr>"

definition glyphB :: character where
  "glyphB = \<lparr>char_x = 32, char_y = 2, width = 24, height = 34, advance = 1728,
     bearingH = 3, bearingV = 0\<rparr>"

text \<open>A font with the 96 entries that \<^verbatim>\<open>LoadFont\<close> asks for, and one with two entries.\<close>

definition font96 :: "real Font" where
  "font96 = \<lparr>fontChar = replicate 96 glyph0, vao = 1, vbo = 1, program = 1, textureID = 1,
     color = \<lparr>color_r = 1, color_g = 1, color_b = 1, color_a = 1\<rparr>,
     atlasWidth = 1024, atlasHeight = 1024\<rparr>"

definition font2 :: "real Font" where
  "font2 = \<lparr>fontChar = [glyphA, glyphB], vao = 1, vbo = 1, program = 1, textureID = 1,
     color = \<lparr>color_r = 1, color_g = 1, color_b = 1, color_a = 1\<rparr>,
     atlasWidth = 1024, atlasHeight = 1024\<rparr>"

section \<open>Concrete font files for evaluation\<close>

text \<open>
  A font all of whose glyphs have the same box of 10 by 12 pixels, and whose advance tells
  the code point.
\<close>

definition ttf_plain :: truetype_Font where
  "ttf_plain = \<lparr>
     GlyphBounds = (\<lambda>size ch. Some (\<lparr>Min_X = 64, Min_Y = - 768, Max_X = 704, Max_Y = 0\<rparr>, 64 * ch)),
     Bounds = (\<lambda>s. \<lparr>Min_X = - 10, Min_Y = - 40, Max_X = 50, Max_Y = 12\<rparr>),
     DrawString = (\<lambda>size ch clip pt. None)\<rparr>"

definition world_plain :: world where
  "world_plain = \<lparr>
     os_Open = (\<lambda>file. Inr (Inr [0, 1, 0, 0])),
     newProgram = (\<lambda>version. Inr 3),
     truetype_Parse = (\<lambda>data. Inr ttf_plain),
     gl_GenTextures = 1, gl_GenVertexArrays = 1, gl_GenBuffers = 1\<rparr>"

text \<open>
  A font whose space has empty bounds, whose overall bounding box is 600 by 700 pixels, whose
  exclamation mark is 20 by 30 pixels and whose other glyphs are 1100 by 30 pixels; and the
  table that \<^verbatim>\<open>LoadTrueTypeFont\<close> builds from it over the code points 32 to 34.
\<close>

definition ttf_wide :: truetype_Font where
  "ttf_wide = \<lparr>
     GlyphBounds = (\<lambda>size ch.
       if ch = 32 then Some (\<lparr>Min_X = 0, Min_Y = 0, Max_X = 0, Max_Y = 0\<rparr>, 800)
       else if ch = 33 then Some (\<lparr>Min_X = 64, Min_Y = - 1920, Max_X = 1344, Max_Y = 0\<rparr>, 1500)
       else Some (\<lparr>Min_X = 0, Min_Y = - 1920, Max_X = 70400, Max_Y = 0\<rparr>, 70500)),
     Bounds = (\<lambda>s. \<lparr>Min_X = - 640, Min_Y = - 38400, Max_X = 37760, Max_Y = 6400\<rparr>),
     DrawString = (\<lambda>size ch clip pt. None)\<rparr>"

definition world_wide :: world where
  "world_wide = \<lparr>
     os_Open = (\<lambda>file. Inr (Inr [0, 1, 0, 0])),
     newProgram = (\<lambda>version. Inr 3),
     truetype_Parse = (\<lambda>data. Inr ttf_wide),
     gl_GenTextures = 1, gl_GenVertexArrays = 1, gl_GenBuffers = 1\<rparr>"

definition table_wide :: "character list" where
  "table_wide =
     [\<lparr>char_x = 2, char_y = 2, width = 600, height = 700, advance = 800,
       bearingH = - 10, bearingV = 100\<rparr>,
      \<lparr>char_x = 0, char_y = 34, width = 20, height = 30, advance = 1500,
       bearingH = 1, bearingV = 0\<rparr>,
      \<lparr>char_x = 22, char_y = 34, width = 1100, height = 30, advance = 70500,
       bearingH = 0, bearingV = 0\<rparr>]"

definition font_wide :: "real Font" where
  "font_wide = \<lparr>fontChar = table_wide, vao = 1, vbo = 1, program = 7, textureID = 1,
     color = \<lparr>color_r = 1, color_g = 1, color_b = 1, color_a = 1\<rparr>,
     atlasWidth = 1024, atlasHeight = 1024\<rparr>"

text \<open>
  A font at 48 points whose space has empty bounds and whose overall bounding box, as
  \<^verbatim>\<open>ttf.Bounds\<close> gives it, is less than a pixel wide and high.
\<close>

definition ttf_space :: truetype_Font where
  "ttf_space = \<lparr>
     GlyphBounds = (\<lambda>size ch. Some (\<lparr>Min_X = 0, Min_Y = 0, Max_X = 0, Max_Y = 0\<rparr>, 800)),
     Bounds = (\<lambda>s. \<lparr>Min_X = - 11, Min_Y = - 40, Max_X = 50, Max_Y = 12\<rparr>),
     DrawString = (\<lambda>size ch clip pt. None)\<rparr>"

definition world_space :: world where
  "world_space = \<lparr>
     os_Open = (\<lambda>file. Inr (Inr [0, 1, 0, 0])),
     newProgram = (\<lambda>version. Inr 3),
     truetype_Parse = (\<lambda>data. Inr ttf_space),
     gl_GenTextures = 1, gl_GenVertexArrays = 1, gl_GenBuffers = 1\<rparr>"

section \<open>Notions of the specification\<close>

text \<open>
  The code points the specification calls retained, those of \<open>[32, 32 + tableSize)\<close>,
  and the table entry of such a code point, at index \<open>c - 32\<close>.
\<close>

definition retained :: "'f Font \<Rightarrow> int \<Rightarrow> bool" where
  "retained f c \<longleftrightarrow> lowChar \<le> c \<and> c < lowChar + int (length (fontChar f))"

definition glyph_of :: "'f Font \<Rightarrow> int \<Rightarrow> character" where
  "glyph_of f c = fontChar f ! nat (c - lowChar)"

text \<open>The values of the type \<^verbatim>\<open>rune\<close>.\<close>

definition rune :: "int \<Rightarrow> bool" where
  "rune c \<longleftrightarrow> - 2147483648 \<le> c \<and> c \<le> 2147483647"

text \<open>
  A well-formed rectangle, in the sense of \<^verbatim>\<open>fixed.Rectangle26_6\<close>, whose extent is
  an \<^verbatim>\<open>Int26_6\<close>; and a font that reports only such rectangles for a size and a range of
  code points.
\<close>

definition well_formed :: "Rectangle26_6 \<Rightarrow> bool" where
  "well_formed b \<longleftrightarrow>
     Min_X b \<le> Max_X b \<and> Max_X b - Min_X b \<le> 2147483647 \<and>
     Min_Y b \<le> Max_Y b \<and> Max_Y b - Min_Y b \<le> 2147483647"

definition well_formed_bounds :: "truetype_Font \<Rightarrow> int \<Rightarrow> int \<Rightarrow> int \<Rightarrow> bool" where
  "well_formed_bounds ttf scale low high \<longleftrightarrow>
     well_formed (Bounds ttf scale) \<and>
     list_all (\<lambda>ch. case GlyphBounds ttf scale ch of
                       None \<Rightarrow> True
                     | Some (gBnd, gAdv) \<Rightarrow> well_formed gBnd) [low..high]"

text \<open>The glyph table of a build that has returned a font.\<close>

definition built_table :: "(error + 'f Font) result option \<Rightarrow> character list option" where
  "built_table r = (case r of Some (Returns (Inr f)) \<Rightarrow> Some (fontChar f) | _ \<Rightarrow> None)"

text \<open>
  The entry \<open>g\<close> holds the metrics of the code point \<open>ch\<close>: its size after the fallback, its
  advance and its bearings.
\<close>

definition glyph_entry :: "truetype_Font \<Rightarrow> int \<Rightarrow> int \<Rightarrow> character \<Rightarrow> bool" where
  "glyph_entry ttf scale ch g =
     (case GlyphBounds ttf scale ch of
        None \<Rightarrow> False
      | Some (gBnd0, gAdv) \<Rightarrow>
          (case glyph_size ttf scale gBnd0 of (gBnd, gw, gh) \<Rightarrow>
             width g = gw \<and> height g = gh \<and> advance g = gAdv \<and>
             bearingH g = drop_bit 6 (Min_X gBnd) \<and> bearingV g = drop_bit 6 (Max_Y gBnd)))"

text \<open>The height of the glyph's own bounds, before any fallback.\<close>

definition raw_height :: "truetype_Font \<Rightarrow> int \<Rightarrow> int \<Rightarrow> int" where
  "raw_height ttf scale ch =
     (case GlyphBounds ttf scale ch of
        None \<Rightarrow> 0
      | Some (gBnd, gAdv) \<Rightarrow> drop_bit 6 (s32 (Max_Y gBnd - Min_Y gBnd)))"

text \<open>
  The glyphs \<open>gs\<close> stand where the packing cursor goes when it starts at \<open>(x, y)\<close>.
\<close>

fun placed :: "int \<Rightarrow> int \<times> int \<Rightarrow> character list \<Rightarrow> bool" where
  "placed lineHeight (x, y) [] = True"
| "placed lineHeight (x, y) (g # gs) =
     (char_x g = x \<and> char_y g = y \<and>
      placed lineHeight (advance_cursor lineHeight x y (width g)) gs)"

text \<open>
  Two glyph rectangles overlap; a glyph rectangle lies within the atlas; and what the
  packing gives for a glyph \<open>g\<close> and a later glyph \<open>g'\<close>: the later one is in the same row
  and to the right beyond the margin, or in a row further down.
\<close>

definition overlaps :: "character \<Rightarrow> character \<Rightarrow> bool" where
  "overlaps g g' \<longleftrightarrow>
     char_x g < char_x g' + width g' \<and> char_x g' < char_x g + width g \<and>
     char_y g < char_y g' + height g' \<and> char_y g' < char_y g + height g"

definition inside_atlas :: "character \<Rightarrow> bool" where
  "inside_atlas g \<longleftrightarrow>
     0 \<le> char_x g \<and> 0 \<le> char_y g \<and>
     char_x g + width g \<le> atlasSize \<and> char_y g + height g \<le> atlasSize"

definition separated :: "int \<Rightarrow> character \<Rightarrow> character \<Rightarrow> bool" where
  "separated lineHeight g g' \<longleftrightarrow>
     char_y g = char_y g' \<and> char_x g + width g + margin \<le> char_x g' \<or>
     char_y g + lineHeight + margin \<le> char_y g'"

section \<open>Properties of the text layout\<close>

subsection \<open>The code point just above the table\<close>

text \<open>
  The skip test of both loops is \<^verbatim>\<open>int(runeIndex)-int(lowChar) > len(f.fontChar)\<close>. The
  code point \<open>32 + len\<close> passes it and indexes the table at its length: wherever it
  stands in the text, the call panics.
\<close>

lemma Width_loop_boundary:
  "Width_loop float32 f scale (pre @ (lowChar + int (length (fontChar f))) # post) st = Panics"
  by (induction pre arbitrary: st) (auto simp: Let_def split: prod.splits)

lemma Printf_loop_boundary:
  "Printf_loop float32 f y scale (pre @ (lowChar + int (length (fontChar f))) # post) st = Panics"
  by (induction pre arbitrary: st) (auto simp: Let_def split: prod.splits)

text \<open>Any other code point outside \<open>[32, 32 + len)\<close> is skipped; \<^verbatim>\<open>Width\<close> prints it.\<close>

lemma Width_loop_skip:
  "c < lowChar \<or> c - lowChar > int (length (fontChar f)) \<Longrightarrow>
   Width_loop float32 f scale (c # rest) (w, out) = Width_loop float32 f scale rest (w, out @ [c])"
  by auto

lemma Printf_loop_skip:
  "c < lowChar \<or> c - lowChar > int (length (fontChar f)) \<Longrightarrow>
   Printf_loop float32 f y scale (c # rest) (coords, x) = Printf_loop float32 f y scale rest (coords, x)"
  by auto

text \<open>
  In a text without the code point \<open>32 + len\<close> the accumulated width is the left-to-right
  sum of \<^verbatim>\<open>float32(advance >> 6) * scale\<close> over the retained code points.
\<close>

lemma Width_loop_sum:
  "\<forall>c\<in>set cs. c \<noteq> lowChar + int (length (fontChar f)) \<Longrightarrow>
   Width_loop float32 f scale cs (w, out) =
     Returns (foldl (+) w (map (\<lambda>c. float32 (drop_bit 6 (advance (glyph_of f c))) * scale)
                (filter (retained f) cs)),
              out @ filter (\<lambda>c. \<not> retained f c) cs)"
proof (induction cs arbitrary: w out)
  case Nil
  then show ?case by simp
next
  case (Cons c cs)
  then show ?case
    by (auto simp: retained_def glyph_of_def Let_def)
qed

text \<open>
  C1 (the code departs from it). A code point below 32, or with \<open>c - 32\<close> above the table
  size, is skipped without error; at the boundary \<open>c - 32 = tableSize\<close> the claim promises
  the same, but the code panics. Evaluated on a table of 96 entries and the text of the code
  points 72 and 128: both \<^verbatim>\<open>Width\<close> and \<^verbatim>\<open>Printf\<close> panic, while with
  129 in place of 128 the code point is skipped.
\<close>

theorem boundary_code_point_panics:
  "Width real_of_int font96 1 [72, 128] = Panics \<and>
   snd (Printf real_of_int font96 0 0 1 [72, 128]) = Panics \<and>
   Width real_of_int font96 1 [72, 129] = Returns (30, [129]) \<and>
   snd (Printf real_of_int font96 0 0 1 [72, 129]) = Returns None"
  by (simp add: Width_def Printf_def font96_def lowChar_def glyph0_def)

text \<open>
  C4 (the code departs from it). \<^verbatim>\<open>Width\<close> is to return the sum of
  \<open>(advance >> 6) * scale\<close> over the code points of \<open>[32, 32 + tableSize)\<close>, the others
  contributing zero. On the table of two glyphs with advances 1920 and 1728 it returns
  \<open>30 + 27 = 57\<close> for the code points 32, 33 and for 32, 33, 35, but for 32, 33, 34 it
  panics where the claim has 57, since \<open>34 - 32\<close> is the table size.
\<close>

theorem Width_sum_fails_at_boundary:
  "Width real_of_int font2 1 [32, 33] = Returns (57, []) \<and>
   Width real_of_int font2 1 [32, 33, 35] = Returns (57, [35]) \<and>
   Width real_of_int font2 1 [32, 33, 34] = Panics"
  by (simp add: Width_def font2_def lowChar_def glyphA_def glyphB_def)

subsection \<open>Measuring and drawing agree\<close>

text \<open>
  The pen of \<^verbatim>\<open>Printf\<close> and the accumulator of \<^verbatim>\<open>Width\<close> go through the same
  tests and the same additions: started from the same value they end with the same value,
  and one panics exactly when the other does.
\<close>

lemma Printf_loop_pen:
  "map_result snd (Printf_loop float32 f y scale indices (coords, x)) =
   map_result fst (Width_loop float32 f scale indices (x, out))"
  by (induction indices arbitrary: coords x out) (auto simp: Let_def)


text \<open>
  In exact arithmetic, whatever the origin \<open>x\<close>, the distance from \<open>x\<close> to the pen that
  \<^verbatim>\<open>Printf\<close> reaches is the result of \<^verbatim>\<open>Width\<close>.
\<close>

lemma Width_loop_shift:
  fixes a b :: "'f::{semigroup_add,times}"
  shows "Width_loop float32 f scale cs (a + b, out) =
         map_result (\<lambda>(w, out). (a + w, out)) (Width_loop float32 f scale cs (b, out))"
  by (induction cs arbitrary: b out) (auto simp: Let_def add.assoc)

lemma Printf_pen_exact:
  fixes x :: "'f::field"
  assumes "Printf_loop float32 f y scale indices (coords, x) = Returns (coords', x')"
  shows "\<exists>w out. Width float32 f scale indices = Returns (w, out) \<and> x' - x = w"
proof -
  have W: "Width float32 f scale indices = Width_loop float32 f scale indices (0, [])"
    by (cases indices) (simp_all add: Width_def)
  have "map_result fst (Width_loop float32 f scale indices (x + 0, [])) = Returns x'"
    using Printf_loop_pen [of float32 f y scale indices coords x "[]"] assms by simp
  then have "map_result (\<lambda>p. x + fst p) (Width_loop float32 f scale indices (0, [])) = Returns x'"
    unfolding Width_loop_shift by (simp add: result.map_comp comp_def case_prod_beta)
  then obtain w out where "Width_loop float32 f scale indices (0, []) = Returns (w, out)"
    and "x + w = x'"
    by (cases "Width_loop float32 f scale indices (0, [])") auto
  then show ?thesis unfolding W by auto
qed

subsection \<open>The quad of a retained code point\<close>

text \<open>
  C8. For a retained code point \<^verbatim>\<open>Printf\<close> appends exactly six vertices, the two triangles
  of the rectangle from \<open>(xpos, ypos)\<close> to \<open>(xpos + w, ypos + h)\<close>, where
  \<open>xpos = penX + bearingH * scale\<close>, \<open>ypos = penY - (height - bearingV) * scale\<close>,
  \<open>w = width * scale\<close> and \<open>h = height * scale\<close>; the texture coordinates are the corners
  of the glyph's atlas rectangle divided by the atlas width and height, in which the scale
  does not occur; and the pen advances by \<open>(advance >> 6) * scale\<close>.
\<close>

theorem Printf_emits_quad:
  assumes "retained f c"
  shows "Printf_loop float32 f y scale (c # rest) (coords, x) =
    (let g = glyph_of f c;
         xpos = x + float32 (bearingH g) * scale;
         ypos = y - float32 (height g - bearingV g) * scale;
         w = float32 (width g) * scale;
         h = float32 (height g) * scale;
         u1 = float32 (char_x g) / atlasWidth f;
         u2 = float32 (char_x g + width g) / atlasWidth f;
         v1 = float32 (char_y g) / atlasHeight f;
         v2 = float32 (char_y g + height g) / atlasHeight f
     in Printf_loop float32 f y scale rest
          (coords @ [(xpos, ypos, u1, v1), (xpos + w, ypos, u2, v1), (xpos, ypos + h, u1, v2),
                     (xpos + w, ypos, u2, v1), (xpos, ypos + h, u1, v2),
                     (xpos + w, ypos + h, u2, v2)],
           x + float32 (drop_bit 6 (advance g)) * scale))"
proof -
  from assms have "\<not> (c - lowChar > int (length (fontChar f)) \<or> c < lowChar)"
    and "nat (c - lowChar) < length (fontChar f)"
    by (auto simp: retained_def)
  then show ?thesis by (simp add: glyph_of_def Let_def)
qed

theorem Printf_emits_quad_witness:
  "retained font2 33 \<and>
   Printf_loop real_of_int font2 100 2 [33] ([], 10) =
     Returns ([(16, 32, 1 / 32, 1 / 512), (64, 32, 7 / 128, 1 / 512), (16, 100, 1 / 32, 9 / 256),
               (64, 32, 7 / 128, 1 / 512), (16, 100, 1 / 32, 9 / 256), (64, 100, 7 / 128, 9 / 256)],
              64)"
proof -
  have r: "retained font2 33" by (simp add: retained_def font2_def lowChar_def)
  from Printf_emits_quad [OF r, of real_of_int 100 2 "[]" "[]" 10] r
  show ?thesis
    by (simp add: glyph_of_def font2_def glyphB_def lowChar_def Let_def)
qed

text \<open>So a call that returns has emitted six vertices for each retained code point.\<close>

lemma Printf_loop_count:
  "Printf_loop float32 f y scale indices (coords, x) = Returns (coords', x') \<Longrightarrow>
   length coords' = length coords + 6 * length (filter (retained f) indices)"
proof (induction indices arbitrary: coords x)
  case Nil
  then show ?case by simp
next
  case (Cons c cs)
  show ?case
  proof (cases "retained f c")
    case True
    then have "\<not> (c - lowChar > int (length (fontChar f)) \<or> c < lowChar)"
      and "nat (c - lowChar) < length (fontChar f)"
      by (auto simp: retained_def)
    with Cons.prems True show ?thesis
      by (auto simp: Let_def dest!: Cons.IH)
  next
    case False
    with Cons.prems have "Printf_loop float32 f y scale cs (coords, x) = Returns (coords', x')"
      by (auto simp: retained_def split: if_splits)
    from Cons.IH [OF this] False show ?thesis by simp
  qed
qed

subsection \<open>The empty text\<close>

text \<open>
  C9. On the empty text \<^verbatim>\<open>Width\<close> returns 0 and has printed nothing, and
  \<^verbatim>\<open>Printf\<close> returns \<^verbatim>\<open>nil\<close> without a single call on OpenGL: no quad, no drawing,
  no error.
\<close>

theorem empty_text:
  "Width float32 f scale [] = Returns (0, []) \<and>
   Printf float32 f x y scale [] = ([], Returns None)"
  by (simp add: Width_def Printf_def)

subsection \<open>The error result of \<^verbatim>\<open>Printf\<close>\<close>

text \<open>
  C10. Whenever \<^verbatim>\<open>Printf\<close> returns, the error it returns is \<^verbatim>\<open>nil\<close>.
\<close>

theorem Printf_returns_nil:
  "snd (Printf float32 f x y scale indices) = Returns e \<Longrightarrow> e = None"
  by (auto simp: Printf_def Let_def split: if_splits result.splits prod.splits)

theorem Printf_returns_nil_witness:
  "snd (Printf real_of_int font96 0 0 1 [72, 10]) = Returns None \<and> (None :: error option) = None"
proof -
  have r: "snd (Printf real_of_int font96 0 0 1 [72, 10]) = Returns None"
    by (simp add: Printf_def font96_def lowChar_def glyph0_def)
  from Printf_returns_nil [OF r] r show ?thesis by simp
qed

section \<open>Properties of the atlas builder\<close>

subsection \<open>Machine arithmetic\<close>

lemma s32_id: "- 2147483648 \<le> n \<Longrightarrow> n \<le> 2147483647 \<Longrightarrow> s32 n = n"
  by (simp add: s32_def)

lemma s32_range: "- 2147483648 \<le> s32 n \<and> s32 n \<le> 2147483647"
  unfolding s32_def by simp

lemma bit_length_le: "m < 2 ^ k \<Longrightarrow> bit_length m \<le> k"
proof (induction k arbitrary: m)
  case 0
  then show ?case by (simp add: bit_length.simps)
next
  case (Suc k)
  show ?case
  proof (cases "m = 0")
    case True
    then show ?thesis by (simp add: bit_length.simps)
  next
    case False
    from Suc.prems have "m div 2 < 2 ^ k" by simp
    from Suc.IH [OF this] False show ?thesis
      by (subst bit_length.simps) simp
  qed
qed

text \<open>Up to \<open>2 ^ 24\<close> the conversion to \<^verbatim>\<open>float32\<close> is exact.\<close>

lemma float32_of_int_exact: "\<bar>n\<bar> < 16777216 \<Longrightarrow> float32_of_int n = n"
proof -
  assume "\<bar>n\<bar> < 16777216"
  then have "nat \<bar>n\<bar> < 2 ^ 24" by simp
  then have "bit_length (nat \<bar>n\<bar>) - 24 = 0"
    using bit_length_le by fastforce
  then show ?thesis by (simp add: float32_of_int_def)
qed

subsection \<open>The loops end unless the counter wraps\<close>

lemma lineHeight_loop_run:
  "- 2147483648 \<le> ch \<Longrightarrow> high < 2147483647 \<Longrightarrow>
   lineHeight_loop ttf scale high ch lh = Some (lineHeight_run ttf scale [ch..high] lh)"
proof (induction "nat (high + 1 - ch)" arbitrary: ch lh)
  case 0
  then have "\<not> ch \<le> high" by simp
  then show ?case by (subst lineHeight_loop.simps) simp
next
  case (Suc n)
  then have le: "ch \<le> high" by linarith
  then have next_ch: "s32 (ch + 1) = ch + 1"
    using Suc.prems by (intro s32_id) auto
  have n: "n = nat (high + 1 - (ch + 1))" using Suc.hyps(2) by linarith
  have IH: "\<And>l. lineHeight_loop ttf scale high (ch + 1) l =
               Some (lineHeight_run ttf scale [ch + 1..high] l)"
    using Suc.hyps(1) [OF n] Suc.prems by simp
  have up: "[ch..high] = ch # [ch + 1..high]" using le by (rule upto_rec1)
  show ?case
    by (subst lineHeight_loop.simps)
       (simp add: le next_ch IH up Let_def split: option.splits prod.splits)
qed

lemma glyph_loop_run:
  "- 2147483648 \<le> ch \<Longrightarrow> high < 2147483647 \<Longrightarrow>
   glyph_loop ttf scale lh high ch st = Some (glyph_run ttf scale lh [ch..high] st)"
proof (induction "nat (high + 1 - ch)" arbitrary: ch st)
  case 0
  then have "\<not> ch \<le> high" by simp
  then show ?case by (subst glyph_loop.simps) simp
next
  case (Suc n)
  then have le: "ch \<le> high" by linarith
  then have next_ch: "s32 (ch + 1) = ch + 1"
    using Suc.prems by (intro s32_id) auto
  have n: "n = nat (high + 1 - (ch + 1))" using Suc.hyps(2) by linarith
  have IH: "\<And>s. glyph_loop ttf scale lh high (ch + 1) s =
               Some (glyph_run ttf scale lh [ch + 1..high] s)"
    using Suc.hyps(1) [OF n] Suc.prems by simp
  have up: "[ch..high] = ch # [ch + 1..high]" using le by (rule upto_rec1)
  show ?case
    by (subst glyph_loop.simps)
       (simp add: le next_ch IH up split: sum.splits)
qed

text \<open>
  With \<open>high = 2 ^ 31 - 1\<close> the first loop can only end by an error: it never hands a line
  height to the second.
\<close>

lemma lineHeight_loop_never_ends:
  assumes "lineHeight_loop ttf scale high ch lh = Some r"
  shows "high = 2147483647 \<longrightarrow> ch \<le> 2147483647 \<longrightarrow> (\<exists>e. r = Inl e)"
proof (rule lineHeight_loop.raw_induct
    [where P = "\<lambda>ttf scale high ch lh r.
       high = 2147483647 \<longrightarrow> ch \<le> 2147483647 \<longrightarrow> (\<exists>e. r = Inl e)", OF _ assms])
  fix loop ttf scale high ch lh r
  assume IH: "\<And>ttf scale high ch lh r. loop ttf scale high ch lh = Some r \<Longrightarrow>
                high = 2147483647 \<longrightarrow> ch \<le> 2147483647 \<longrightarrow> (\<exists>e. r = Inl e)"
    and body: "(if ch \<le> high
          then case GlyphBounds ttf scale ch of
                 None \<Rightarrow> Some (Inl glyphBoundsError)
               | Some (gBnd, gAdv) \<Rightarrow>
                   let gh = drop_bit 6 (s32 (Max_Y gBnd - Min_Y gBnd))
                   in loop ttf scale high (s32 (ch + 1))
                        (max_float32 lh (float32_of_int gh))
          else Some (Inr lh)) = Some r"
  show "high = 2147483647 \<longrightarrow> ch \<le> 2147483647 \<longrightarrow> (\<exists>e. r = Inl e)"
  proof (intro impI)
    assume h: "high = 2147483647" and c: "ch \<le> 2147483647"
    show "\<exists>e. r = Inl e"
    proof (cases "GlyphBounds ttf scale ch")
      case None
      with body h c show ?thesis by auto
    next
      case (Some p)
      obtain gBnd gAdv where p: "p = (gBnd, gAdv)" by (cases p)
      from body h c Some p
      have "loop ttf scale high (s32 (ch + 1))
              (max_float32 lh (float32_of_int (drop_bit 6 (s32 (Max_Y gBnd - Min_Y gBnd))))) = Some r"
        by (simp add: Let_def)
      from IH [OF this] h s32_range [of "ch + 1"] show ?thesis by simp
    qed
  qed
qed

text \<open>
  Unless \<open>high\<close> is the greatest rune, the build ends: it panics or returns. So does every
  call of \<^verbatim>\<open>LoadFont\<close>.
\<close>

lemma LoadTrueTypeFont_returns:
  assumes "- 2147483648 \<le> low" "high < 2147483647"
  shows "LoadTrueTypeFont float32 w prog r scale low high dir \<noteq> None"
  by (simp add: LoadTrueTypeFont_def lineHeight_loop_run [OF assms] glyph_loop_run [OF assms]
      split: sum.splits prod.splits)

lemma LoadFont_returns:
  "LoadFont float32 w file scale windowWidth windowHeight GLSLVersion \<noteq> None"
proof -
  have "LoadTrueTypeFont float32 w prog fd scale 32 127 LeftToRight \<noteq> None" for prog fd
    by (rule LoadTrueTypeFont_returns) simp_all
  then show ?thesis
    by (auto simp: LoadFont_def split: sum.splits)
qed

subsection \<open>What the loops leave in the table\<close>

lemma make_glyph_Inr:
  assumes "make_glyph ttf scale lh ch (x, y, chars) = Inr st'"
  shows "\<exists>g. st' = (fst (advance_cursor lh x y (width g)), snd (advance_cursor lh x y (width g)),
                     chars @ [g]) \<and>
             char_x g = x \<and> char_y g = y \<and> glyph_entry ttf scale ch g"
  using assms
  by (auto simp: make_glyph_def glyph_entry_def Let_def
           split: option.splits prod.splits)

lemma glyph_run_placed:
  "glyph_run ttf scale lh cs (x, y, chars) = Inr (x', y', chars') \<Longrightarrow>
   \<exists>new. chars' = chars @ new \<and> placed lh (x, y) new \<and> list_all2 (glyph_entry ttf scale) cs new"
proof (induction cs arbitrary: x y chars)
  case Nil
  then show ?case by simp
next
  case (Cons c cs)
  from Cons.prems obtain st1 where
    st1: "make_glyph ttf scale lh c (x, y, chars) = Inr st1"
    and run: "glyph_run ttf scale lh cs st1 = Inr (x', y', chars')"
    by (auto split: sum.splits)
  from make_glyph_Inr [OF st1] obtain g where
    g: "st1 = (fst (advance_cursor lh x y (width g)), snd (advance_cursor lh x y (width g)),
               chars @ [g])"
       "char_x g = x" "char_y g = y" "glyph_entry ttf scale c g"
    by blast
  from Cons.IH [OF run [unfolded g(1)]] obtain new where
    new: "chars' = (chars @ [g]) @ new"
         "placed lh (fst (advance_cursor lh x y (width g)), snd (advance_cursor lh x y (width g))) new"
         "list_all2 (glyph_entry ttf scale) cs new"
    by blast
  show ?case
    using g new by (intro exI [of _ "g # new"]) simp
qed

lemma lineHeight_run_Max:
  "lineHeight_run ttf scale cs lh = Inr lh' \<Longrightarrow>
   lh' = Max (insert lh ((\<lambda>ch. float32_of_int (raw_height ttf scale ch)) ` set cs))"
proof (induction cs arbitrary: lh)
  case Nil
  then show ?case by simp
next
  case (Cons c cs)
  from Cons.prems obtain gBnd gAdv where
    b: "GlyphBounds ttf scale c = Some (gBnd, gAdv)"
    and run: "lineHeight_run ttf scale cs
                (max_float32 lh (float32_of_int (drop_bit 6 (s32 (Max_Y gBnd - Min_Y gBnd))))) = Inr lh'"
    by (auto simp: Let_def split: option.splits)
  have v: "float32_of_int (drop_bit 6 (s32 (Max_Y gBnd - Min_Y gBnd))) =
           float32_of_int (raw_height ttf scale c)"
    by (simp add: raw_height_def b)
  have m: "max_float32 a b = max a b" for a b
    by (simp add: max_float32_def max_def)
  let ?S = "(\<lambda>ch. float32_of_int (raw_height ttf scale ch)) ` set cs"
  have "lh' = Max (insert (max lh (float32_of_int (raw_height ttf scale c))) ?S)"
    using Cons.IH [OF run] by (simp add: v m)
  also have "\<dots> = Max (insert lh (insert (float32_of_int (raw_height ttf scale c)) ?S))"
    by (cases "?S = {}") (simp_all add: max.assoc)
  finally show ?case by (simp add: insert_commute)
qed

text \<open>A build that returns a font has run both loops over \<open>[low..high]\<close> to their end.\<close>

lemma LoadTrueTypeFont_built:
  assumes low: "rune low" and high: "rune high"
    and parse: "truetype_Parse w data = Inr ttf"
    and built: "LoadTrueTypeFont float32 w prog (Inr data) scale low high dir = Some (Returns (Inr f))"
  shows "\<exists>lh x y. lineHeight_loop ttf scale high low 0 = Some (Inr lh) \<and>
           lineHeight_run ttf scale [low..high] 0 = Inr lh \<and>
           glyph_run ttf scale lh [low..high] (margin, margin, []) = Inr (x, y, fontChar f)"
proof -
  from built parse obtain lh where
    lh: "lineHeight_loop ttf scale high low 0 = Some (Inr lh)"
    by (auto simp: LoadTrueTypeFont_def split: if_splits option.splits sum.splits)
  have "high \<noteq> 2147483647"
    using lineHeight_loop_never_ends [OF lh] low by (auto simp: rune_def)
  with high have h: "high < 2147483647" by (simp add: rune_def)
  from low have l: "- 2147483648 \<le> low" by (simp add: rune_def)
  have run1: "lineHeight_run ttf scale [low..high] 0 = Inr lh"
    using lh lineHeight_loop_run [OF l h, of ttf scale 0] by simp
  from built parse lh obtain x y where
    "glyph_loop ttf scale lh high low (margin, margin, []) = Some (Inr (x, y, fontChar f))"
    by (auto simp: LoadTrueTypeFont_def SetColor_def split: if_splits option.splits sum.splits)
  then have "glyph_run ttf scale lh [low..high] (margin, margin, []) = Inr (x, y, fontChar f)"
    using glyph_loop_run [OF l h, of ttf scale lh "(margin, margin, [])"] by simp
  with lh run1 show ?thesis by blast
qed

subsection \<open>The build of the three-glyph font\<close>

lemma upto_32_34: "[32..34] = [32, 33, 34::int]"
  by (simp add: upto_rec1)

lemma lineHeight_wide: "lineHeight_loop ttf_wide 48 34 32 0 = Some (Inr 30)"
  by (simp add: lineHeight_loop_run upto_32_34 ttf_wide_def Let_def s32_def
      max_float32_def float32_of_int_exact)

lemma glyphs_wide:
  "glyph_loop ttf_wide 48 30 34 32 (margin, margin, []) = Some (Inr (0, 66, table_wide))"
  by (simp add: glyph_loop_run upto_32_34
      make_glyph_def glyph_size_def advance_cursor_def image_Rect_def margin_def atlasSize_def
      ttf_wide_def s32_def Let_def table_wide_def)

lemma built_wide:
  "LoadTrueTypeFont real_of_int world_wide 7 (Inr [0, 1, 0, 0]) 48 32 34 LeftToRight =
     Some (Returns (Inr font_wide))"
  by (simp add: LoadTrueTypeFont_def world_wide_def lineHeight_wide glyphs_wide
      s32_def SetColor_def font_wide_def atlasSize_def)

lemma well_formed_wide: "well_formed_bounds ttf_wide 48 32 34"
  by (simp add: well_formed_bounds_def well_formed_def upto_32_34 ttf_wide_def)

subsection \<open>No empty glyph cell\<close>

lemma pixels_nonneg: "0 \<le> d \<Longrightarrow> d \<le> 2147483647 \<Longrightarrow> 0 \<le> drop_bit 6 (s32 d)"
  by (simp add: s32_id drop_bit_eq_div)

lemma glyph_size_positive:
  assumes "well_formed gBnd0" "well_formed (Bounds ttf scale)"
    and "glyph_size ttf scale gBnd0 = (gBnd, gw, gh)"
  shows "0 < gw \<and> 0 < gh"
proof -
  let ?b = "Bounds ttf scale"
  have a: "0 \<le> drop_bit 6 (s32 (Max_X gBnd0 - Min_X gBnd0))"
          "0 \<le> drop_bit 6 (s32 (Max_Y gBnd0 - Min_Y gBnd0))"
    using assms(1) by (simp_all add: well_formed_def s32_id)
  have b: "0 \<le> drop_bit 6 (s32 (Max_X ?b - Min_X ?b))"
          "0 \<le> drop_bit 6 (s32 (Max_Y ?b - Min_Y ?b))"
    using assms(2) by (simp_all add: well_formed_def s32_id)
  from assms(3) a b show ?thesis
    by (auto simp: glyph_size_def Let_def simp del: drop_bit_nonnegative_int_iff
        split: if_splits)
qed

lemma glyph_entry_positive:
  assumes "well_formed_bounds ttf scale low high" "ch \<in> set [low..high]"
    and "glyph_entry ttf scale ch g"
  shows "0 < width g \<and> 0 < height g"
proof -
  from assms(3) obtain gBnd0 gAdv gBnd where
    b: "GlyphBounds ttf scale ch = Some (gBnd0, gAdv)"
    and s: "glyph_size ttf scale gBnd0 = (gBnd, width g, height g)"
    by (auto simp: glyph_entry_def split: option.splits prod.splits)
  from assms(1) have wb: "well_formed (Bounds ttf scale)"
    and "\<forall>c\<in>set [low..high]. case GlyphBounds ttf scale c of
            None \<Rightarrow> True | Some (gBnd, gAdv) \<Rightarrow> well_formed gBnd"
    by (simp_all add: well_formed_bounds_def list_all_iff)
  with assms(2) have "case GlyphBounds ttf scale ch of
            None \<Rightarrow> True | Some (gBnd, gAdv) \<Rightarrow> well_formed gBnd"
    by blast
  with b wb have "well_formed gBnd0" "well_formed (Bounds ttf scale)"
    by simp_all
  from glyph_size_positive [OF this s] show ?thesis .
qed

lemma entries_positive:
  assumes "well_formed_bounds ttf scale low high"
    and "list_all2 (glyph_entry ttf scale) [low..high] gs"
  shows "list_all (\<lambda>g. 0 < width g \<and> 0 < height g) gs"
proof -
  have "0 < width (gs ! i) \<and> 0 < height (gs ! i)" if "i < length gs" for i
  proof -
    from assms(2) that have "glyph_entry ttf scale ([low..high] ! i) (gs ! i)"
      and "i < length [low..high]"
      by (auto simp: list_all2_conv_all_nth)
    then show ?thesis
      using glyph_entry_positive [OF assms(1)] nth_mem by blast
  qed
  then show ?thesis by (simp add: list_all_length)
qed

text \<open>
  What a build that returns a font has done: the pre-pass has given the line height, the
  greatest \<^verbatim>\<open>float32\<close> of the heights of the glyphs' own bounds and of 0; the entries
  stand where the cursor went; and the entry at index \<open>i\<close> holds the metrics of the code
  point \<open>low + i\<close>.
\<close>

lemma built_entries:
  assumes "rune low" "rune high" "truetype_Parse w data = Inr ttf"
    and "LoadTrueTypeFont float32 w prog (Inr data) scale low high dir = Some (Returns (Inr f))"
  shows "\<exists>lh. lineHeight_loop ttf scale high low 0 = Some (Inr lh) \<and>
           lh = Max (insert 0 ((\<lambda>ch. float32_of_int (raw_height ttf scale ch)) ` {low..high})) \<and>
           placed lh (margin, margin) (fontChar f) \<and>
           list_all2 (glyph_entry ttf scale) [low..high] (fontChar f)"
proof -
  from LoadTrueTypeFont_built [OF assms] obtain lh x y where
    lh: "lineHeight_loop ttf scale high low 0 = Some (Inr lh)"
    and r1: "lineHeight_run ttf scale [low..high] 0 = Inr lh"
    and r2: "glyph_run ttf scale lh [low..high] (margin, margin, []) = Inr (x, y, fontChar f)"
    by blast
  from lineHeight_run_Max [OF r1] glyph_run_placed [OF r2] lh show ?thesis by simp
qed



subsection \<open>Where the glyphs stand in the atlas\<close>

lemma placed_next:
  "placed lh (x, y) gs \<Longrightarrow> Suc i < length gs \<Longrightarrow>
   (char_x (gs ! Suc i), char_y (gs ! Suc i)) =
     advance_cursor lh (char_x (gs ! i)) (char_y (gs ! i)) (width (gs ! i))"
proof (induction gs arbitrary: x y i)
  case Nil
  then show ?case by simp
next
  case (Cons g gs)
  obtain x1 y1 where c: "advance_cursor lh x y (width g) = (x1, y1)" by fastforce
  from Cons.prems(1) c have g: "char_x g = x" "char_y g = y" and p: "placed lh (x1, y1) gs"
    by simp_all
  show ?case
  proof (cases i)
    case 0
    with Cons.prems(2) obtain g' gs' where gs: "gs = g' # gs'" by (cases gs) auto
    with p have "char_x g' = x1" "char_y g' = y1" by simp_all
    with 0 gs g c show ?thesis by simp
  next
    case (Suc k)
    with Cons.prems(2) have "Suc k < length gs" by simp
    from Cons.IH [OF p this] Suc show ?thesis by simp
  qed
qed

lemma placed_first: "placed lh (x, y) gs \<Longrightarrow> gs \<noteq> [] \<Longrightarrow> char_x (gs ! 0) = x \<and> char_y (gs ! 0) = y"
  by (cases gs) simp_all

text \<open>
  Every glyph placed from the cursor \<open>(x, y)\<close> on is in the row of the cursor and not left of
  it, or in a row further down.
\<close>

lemma placed_after:
  assumes "0 \<le> lh"
  shows "list_all (\<lambda>g. 0 < width g) gs \<Longrightarrow> placed lh (x, y) gs \<Longrightarrow>
         list_all (\<lambda>g. char_y g = y \<and> x \<le> char_x g \<or> y + lh + margin \<le> char_y g) gs"
proof (induction gs arbitrary: x y)
  case Nil
  then show ?case by simp
next
  case (Cons g gs)
  obtain x1 y1 where c: "advance_cursor lh x y (width g) = (x1, y1)" by fastforce
  from Cons.prems c have g: "char_x g = x" "char_y g = y" "0 < width g"
    and w: "list_all (\<lambda>g. 0 < width g) gs" and p: "placed lh (x1, y1) gs"
    by simp_all
  from c g(3) have c': "y1 = y \<and> x \<le> x1 \<or> y1 = y + lh + margin"
    by (auto simp: advance_cursor_def Let_def margin_def split: if_splits)
  have "char_y h = y \<and> x \<le> char_x h \<or> y + lh + margin \<le> char_y h"
    if "char_y h = y1 \<and> x1 \<le> char_x h \<or> y1 + lh + margin \<le> char_y h" for h
    using that c' assms by (auto simp: margin_def)
  with Cons.IH [OF w p] have
    "list_all (\<lambda>g. char_y g = y \<and> x \<le> char_x g \<or> y + lh + margin \<le> char_y g) gs"
    unfolding list_all_iff by blast
  with g show ?case by simp
qed

lemma placed_separated:
  assumes "0 \<le> lh"
  shows "list_all (\<lambda>g. 0 < width g) gs \<Longrightarrow> placed lh (x, y) gs \<Longrightarrow>
         sorted_wrt (separated lh) gs"
proof (induction gs arbitrary: x y)
  case Nil
  then show ?case by simp
next
  case (Cons g gs)
  obtain x1 y1 where c: "advance_cursor lh x y (width g) = (x1, y1)" by fastforce
  from Cons.prems c have g: "char_x g = x" "char_y g = y" "0 < width g"
    and w: "list_all (\<lambda>g. 0 < width g) gs" and p: "placed lh (x1, y1) gs"
    by simp_all
  from c have c': "y1 = y \<and> x1 = x + width g + margin \<or> y1 = y + lh + margin"
    by (auto simp: advance_cursor_def Let_def split: if_splits)
  have "separated lh g h"
    if "char_y h = y1 \<and> x1 \<le> char_x h \<or> y1 + lh + margin \<le> char_y h" for h
    using that c' g assms by (auto simp: separated_def margin_def)
  with placed_after [OF assms w p] have "\<forall>h\<in>set gs. separated lh g h"
    unfolding list_all_iff by blast
  with Cons.IH [OF w p] show ?case by simp
qed

lemma placed_corner:
  assumes "0 \<le> lh"
  shows "list_all (\<lambda>g. 0 < width g) gs \<Longrightarrow> placed lh (x, y) gs \<Longrightarrow>
         0 \<le> x \<Longrightarrow> x < atlasSize \<Longrightarrow> margin \<le> y \<Longrightarrow>
         list_all (\<lambda>g. 0 \<le> char_x g \<and> char_x g < atlasSize \<and> margin \<le> char_y g) gs"
proof (induction gs arbitrary: x y)
  case Nil
  then show ?case by simp
next
  case (Cons g gs)
  obtain x1 y1 where c: "advance_cursor lh x y (width g) = (x1, y1)" by fastforce
  from Cons.prems(1,2) c have g: "char_x g = x" "char_y g = y" "0 < width g"
    and w: "list_all (\<lambda>g. 0 < width g) gs" and p: "placed lh (x1, y1) gs"
    by simp_all
  from c g(3) Cons.prems(3,4,5) assms have "0 \<le> x1" "x1 < atlasSize" "margin \<le> y1"
    by (auto simp: advance_cursor_def Let_def margin_def atlasSize_def split: if_splits)
  from Cons.IH [OF w p this] g Cons.prems(3,4,5) show ?case by simp
qed

lemma separated_no_overlap:
  "separated lh g h \<Longrightarrow> height g \<le> lh \<Longrightarrow> \<not> overlaps g h"
  by (auto simp: separated_def overlaps_def margin_def)

lemma lineHeight_nonneg:
  "lh = Max (insert 0 ((\<lambda>ch. float32_of_int (raw_height ttf scale ch)) ` {low..high})) \<Longrightarrow> 0 \<le> lh"
  by simp

text \<open>
  C5, as amended. In a font built from well-formed bounds, a glyph and any later glyph of the
  table are either in the same row, the later one to the right beyond the margin of two
  pixels, or the later one is in a row at least \<open>lineHeight + 2\<close> further down, where
  \<open>lineHeight\<close> is the value of the pre-pass. So a glyph whose recorded height is at most
  \<open>lineHeight\<close> overlaps no later glyph. The top-left corner of every rectangle has
  \<open>0 \<le> x < 1024\<close> and \<open>2 \<le> y\<close>. Nothing is said of the right and bottom edges: the
  code checks neither the height of the atlas nor the width of the glyph it places.
\<close>

theorem packing_separates_glyphs:
  assumes "rune low" "rune high" "truetype_Parse w data = Inr ttf"
    and "well_formed_bounds ttf scale low high"
    and "LoadTrueTypeFont float32 w prog (Inr data) scale low high dir = Some (Returns (Inr f))"
  shows "\<exists>lh. lineHeight_loop ttf scale high low 0 = Some (Inr lh) \<and>
           sorted_wrt (separated lh) (fontChar f) \<and>
           list_all (\<lambda>g. 0 \<le> char_x g \<and> char_x g < atlasSize \<and> margin \<le> char_y g) (fontChar f) \<and>
           (\<forall>i j. i < j \<longrightarrow> j < length (fontChar f) \<longrightarrow> height (fontChar f ! i) \<le> lh \<longrightarrow>
                  \<not> overlaps (fontChar f ! i) (fontChar f ! j))"
proof -
  from built_entries [OF assms(1,2,3,5)] obtain lh where
    lh: "lineHeight_loop ttf scale high low 0 = Some (Inr lh)"
    and m: "lh = Max (insert 0 ((\<lambda>ch. float32_of_int (raw_height ttf scale ch)) ` {low..high}))"
    and p: "placed lh (margin, margin) (fontChar f)"
    and e: "list_all2 (glyph_entry ttf scale) [low..high] (fontChar f)"
    by blast
  from m have n: "0 \<le> lh" by (rule lineHeight_nonneg)
  from entries_positive [OF assms(4) e]
  have w: "list_all (\<lambda>g. 0 < width g) (fontChar f)" by (simp add: list_all_iff)
  have s: "sorted_wrt (separated lh) (fontChar f)"
    by (rule placed_separated [OF n w p])
  have c: "list_all (\<lambda>g. 0 \<le> char_x g \<and> char_x g < atlasSize \<and> margin \<le> char_y g) (fontChar f)"
    by (rule placed_corner [OF n w p]) (simp_all add: margin_def atlasSize_def)
  have "\<not> overlaps (fontChar f ! i) (fontChar f ! j)"
    if "i < j" "j < length (fontChar f)" "height (fontChar f ! i) \<le> lh" for i j
    using s that by (intro separated_no_overlap [of lh]) (simp_all add: sorted_wrt_iff_nth_less)
  with lh s c show ?thesis by blast
qed

theorem packing_separates_glyphs_witness:
  "rune 32 \<and> rune 34 \<and> truetype_Parse world_wide [0, 1, 0, 0] = Inr ttf_wide \<and>
   well_formed_bounds ttf_wide 48 32 34 \<and>
   LoadTrueTypeFont real_of_int world_wide 7 (Inr [0, 1, 0, 0]) 48 32 34 LeftToRight =
     Some (Returns (Inr font_wide)) \<and>
   lineHeight_loop ttf_wide 48 34 32 0 = Some (Inr 30) \<and>
   sorted_wrt (separated 30) (fontChar font_wide) \<and>
   \<not> overlaps (fontChar font_wide ! 1) (fontChar font_wide ! 2)"
proof -
  have r: "rune 32" "rune 34" by (simp_all add: rune_def)
  have p: "truetype_Parse world_wide [0, 1, 0, 0] = Inr ttf_wide" by (simp add: world_wide_def)
  from packing_separates_glyphs [OF r p well_formed_wide built_wide] lineHeight_wide
  have s: "sorted_wrt (separated 30) (fontChar font_wide)"
    and o: "\<forall>i j. i < j \<longrightarrow> j < length (fontChar font_wide) \<longrightarrow>
              height (fontChar font_wide ! i) \<le> 30 \<longrightarrow>
              \<not> overlaps (fontChar font_wide ! i) (fontChar font_wide ! j)"
    by auto
  have "\<not> overlaps (fontChar font_wide ! 1) (fontChar font_wide ! 2)"
    by (rule o [rule_format]) (simp_all add: font_wide_def table_wide_def)
  with s r p well_formed_wide built_wide lineHeight_wide show ?thesis by simp
qed

text \<open>
  C5 as stated fails. In the table built from the three-glyph font, the rectangle of the
  space, which has the size of the font's bounding box, overlaps the rectangle of the
  exclamation mark in the next row; and the third rectangle ends at \<open>x = 1122\<close>, outside the
  atlas.
\<close>

theorem glyph_rectangles_counterexample:
  "built_table (LoadTrueTypeFont real_of_int world_wide 7 (Inr [0, 1, 0, 0]) 48 32 34 LeftToRight) =
     Some table_wide \<and>
   overlaps (table_wide ! 0) (table_wide ! 1) \<and>
   \<not> inside_atlas (table_wide ! 2)"
proof -
  have "built_table (LoadTrueTypeFont real_of_int world_wide 7 (Inr [0, 1, 0, 0]) 48 32 34
          LeftToRight) = Some table_wide"
    by (subst built_wide) (simp add: built_table_def font_wide_def)
  moreover have "overlaps (table_wide ! 0) (table_wide ! 1)"
    by (simp add: table_wide_def overlaps_def)
  moreover have "\<not> inside_atlas (table_wide ! 2)"
    by (simp add: table_wide_def inside_atlas_def atlasSize_def)
  ultimately show ?thesis by blast
qed

subsection \<open>The line height\<close>

text \<open>
  C7, as amended. The \<open>lineHeight\<close> that advances the cursor to a new row is the value the
  pre-pass returns before the second loop starts: the greatest of 0 and of the heights of the
  glyphs' own bounds, \<^verbatim>\<open>(Max.Y - Min.Y) >> 6\<close> converted to \<^verbatim>\<open>float32\<close>, over every code
  point of \<open>[low, high]\<close>; the fallback that decides the recorded height plays no part in
  it. The first glyph stands at \<open>(2, 2)\<close>, and after each glyph either the next one stands
  \<open>width + margin\<close> to the right in the same row, or, on a wrap, at \<open>x = 0\<close> and
  \<open>lineHeight + margin\<close> further down.
\<close>

theorem lineHeight_from_pre_pass:
  assumes "rune low" "rune high" "truetype_Parse w data = Inr ttf"
    and "LoadTrueTypeFont float32 w prog (Inr data) scale low high dir = Some (Returns (Inr f))"
  shows "\<exists>lh. lineHeight_loop ttf scale high low 0 = Some (Inr lh) \<and>
           lh = Max (insert 0 ((\<lambda>ch. float32_of_int (raw_height ttf scale ch)) ` {low..high})) \<and>
           (fontChar f \<noteq> [] \<longrightarrow>
              char_x (fontChar f ! 0) = margin \<and> char_y (fontChar f ! 0) = margin) \<and>
           (\<forall>i. Suc i < length (fontChar f) \<longrightarrow>
              (if char_x (fontChar f ! i) + width (fontChar f ! i) + margin
                    + width (fontChar f ! i) + margin > atlasSize
               then char_x (fontChar f ! Suc i) = 0 \<and>
                    char_y (fontChar f ! Suc i) = char_y (fontChar f ! i) + lh + margin
               else char_x (fontChar f ! Suc i) = char_x (fontChar f ! i) + width (fontChar f ! i) + margin \<and>
                    char_y (fontChar f ! Suc i) = char_y (fontChar f ! i)))"
proof -
  from built_entries [OF assms] obtain lh where
    lh: "lineHeight_loop ttf scale high low 0 = Some (Inr lh)"
    and m: "lh = Max (insert 0 ((\<lambda>ch. float32_of_int (raw_height ttf scale ch)) ` {low..high}))"
    and p: "placed lh (margin, margin) (fontChar f)"
    by blast
  have first: "fontChar f \<noteq> [] \<longrightarrow>
      char_x (fontChar f ! 0) = margin \<and> char_y (fontChar f ! 0) = margin"
    using placed_first [OF p] by blast
  have step: "if char_x (fontChar f ! i) + width (fontChar f ! i) + margin
                    + width (fontChar f ! i) + margin > atlasSize
               then char_x (fontChar f ! Suc i) = 0 \<and>
                    char_y (fontChar f ! Suc i) = char_y (fontChar f ! i) + lh + margin
               else char_x (fontChar f ! Suc i) = char_x (fontChar f ! i) + width (fontChar f ! i) + margin \<and>
                    char_y (fontChar f ! Suc i) = char_y (fontChar f ! i)"
    if "Suc i < length (fontChar f)" for i
    using placed_next [OF p that] by (auto simp: advance_cursor_def Let_def split: if_splits)
  from lh m first step show ?thesis by blast
qed

theorem lineHeight_from_pre_pass_witness:
  "rune 32 \<and> rune 34 \<and> truetype_Parse world_wide [0, 1, 0, 0] = Inr ttf_wide \<and>
   LoadTrueTypeFont real_of_int world_wide 7 (Inr [0, 1, 0, 0]) 48 32 34 LeftToRight =
     Some (Returns (Inr font_wide)) \<and>
   lineHeight_loop ttf_wide 48 34 32 0 = Some (Inr 30) \<and>
   char_x (fontChar font_wide ! 1) = 0 \<and>
   char_y (fontChar font_wide ! 1) = char_y (fontChar font_wide ! 0) + 30 + margin"
proof -
  have r: "rune 32" "rune 34" by (simp_all add: rune_def)
  have p: "truetype_Parse world_wide [0, 1, 0, 0] = Inr ttf_wide" by (simp add: world_wide_def)
  from lineHeight_from_pre_pass [OF r p built_wide] lineHeight_wide
  have "\<forall>i. Suc i < length (fontChar font_wide) \<longrightarrow>
              (if char_x (fontChar font_wide ! i) + width (fontChar font_wide ! i) + margin
                    + width (fontChar font_wide ! i) + margin > atlasSize
               then char_x (fontChar font_wide ! Suc i) = 0 \<and>
                    char_y (fontChar font_wide ! Suc i) = char_y (fontChar font_wide ! i) + 30 + margin
               else char_x (fontChar font_wide ! Suc i) =
                      char_x (fontChar font_wide ! i) + width (fontChar font_wide ! i) + margin \<and>
                    char_y (fontChar font_wide ! Suc i) = char_y (fontChar font_wide ! i))"
    by auto
  from this [rule_format, of 0]
  have "char_x (fontChar font_wide ! 1) = 0 \<and>
        char_y (fontChar font_wide ! 1) = char_y (fontChar font_wide ! 0) + 30 + margin"
    by (simp add: font_wide_def table_wide_def margin_def atlasSize_def)
  with r p built_wide lineHeight_wide show ?thesis by simp
qed

text \<open>The build over the space alone.\<close>

lemma upto_32_32: "[32..32] = [32::int]"
  by (simp add: upto_rec1)

lemma lineHeight_space: "lineHeight_loop ttf_space 48 32 32 0 = Some (Inr 0)"
  by (simp add: lineHeight_loop_run upto_32_32 ttf_space_def Let_def s32_def
      max_float32_def float32_of_int_exact)

lemma glyphs_space:
  "glyph_loop ttf_space 48 0 32 32 (margin, margin, []) =
     Some (Inr (5, 2, [\<lparr>char_x = 2, char_y = 2, width = 1, height = 1, advance = 800,
                        bearingH = - 1, bearingV = 0\<rparr>]))"
  by (simp add: glyph_loop_run upto_32_32
      make_glyph_def glyph_size_def advance_cursor_def image_Rect_def margin_def atlasSize_def
      ttf_space_def s32_def Let_def)

lemma built_space:
  "built_table (LoadTrueTypeFont real_of_int world_space 7 (Inr [0, 1, 0, 0]) 48 32 32 LeftToRight) =
     Some [\<lparr>char_x = 2, char_y = 2, width = 1, height = 1, advance = 800,
            bearingH = - 1, bearingV = 0\<rparr>]"
  by (simp add: LoadTrueTypeFont_def world_space_def lineHeight_space glyphs_space
      s32_def SetColor_def built_table_def)

text \<open>
  C7 as stated fails: the line height is not the greatest recorded height. Built over the
  space alone, the pre-pass gives 0 and the one entry has the height 1. Built over 32 to 34
  from the three-glyph font, the pre-pass gives 30, the second row starts 32 below the first,
  and the greatest recorded height is 700.
\<close>

theorem lineHeight_counterexample:
  "lineHeight_loop ttf_space 48 32 32 0 = Some (Inr 0) \<and>
   map_option (\<lambda>t. Max (height ` set t))
     (built_table (LoadTrueTypeFont real_of_int world_space 7 (Inr [0, 1, 0, 0]) 48 32 32
        LeftToRight)) = Some 1 \<and>
   lineHeight_loop ttf_wide 48 34 32 0 = Some (Inr 30) \<and>
   map_option (\<lambda>t. Max (height ` set t))
     (built_table (LoadTrueTypeFont real_of_int world_wide 7 (Inr [0, 1, 0, 0]) 48 32 34
        LeftToRight)) = Some 700 \<and>
   map_option (map char_y)
     (built_table (LoadTrueTypeFont real_of_int world_wide 7 (Inr [0, 1, 0, 0]) 48 32 34
        LeftToRight)) = Some [2, 34, 34]"
proof -
  have w: "built_table (LoadTrueTypeFont real_of_int world_wide 7 (Inr [0, 1, 0, 0]) 48 32 34
          LeftToRight) = Some table_wide"
    by (subst built_wide) (simp add: built_table_def font_wide_def)
  have "map_option (\<lambda>t. Max (height ` set t))
     (built_table (LoadTrueTypeFont real_of_int world_space 7 (Inr [0, 1, 0, 0]) 48 32 32
        LeftToRight)) = Some 1"
    by (subst built_space) simp
  moreover have "map_option (\<lambda>t. Max (height ` set t)) (Some table_wide) = Some 700"
    by (simp add: table_wide_def)
  moreover have "map_option (map char_y) (Some table_wide) = Some [2, 34, 34]"
    by (simp add: table_wide_def)
  ultimately show ?thesis
    using lineHeight_space lineHeight_wide unfolding w by blast
qed

subsection \<open>The range of \<^verbatim>\<open>LoadFont\<close>\<close>

lemma LoadFont_table:
  assumes "LoadFont float32 w file scale windowWidth windowHeight GLSLVersion = Some (Returns (Inr f))"
  shows "\<exists>data ttf. os_Open w file = Inr (Inr data) \<and> truetype_Parse w data = Inr ttf \<and>
           list_all2 (glyph_entry ttf scale) [32..127] (fontChar f)"
proof -
  from assms obtain fd prog where
    o: "os_Open w file = Inr fd"
    and b: "LoadTrueTypeFont float32 w prog fd scale 32 127 LeftToRight = Some (Returns (Inr f))"
    by (auto simp: LoadFont_def split: sum.splits)
  from b obtain data ttf where d: "fd = Inr data" and p: "truetype_Parse w data = Inr ttf"
    by (auto simp: LoadTrueTypeFont_def split: sum.splits)
  have r: "rune 32" "rune 127" by (simp_all add: rune_def)
  from built_entries [OF r p b [unfolded d]] o d p show ?thesis by blast
qed

text \<open>On the plain font, whose bounds and drawing never fail, the build returns a font.\<close>

lemma lineHeight_run_plain: "\<exists>lh. lineHeight_run ttf_plain scale cs l = Inr lh"
  by (induction cs arbitrary: l) (simp_all add: ttf_plain_def Let_def)

lemma glyph_run_plain: "\<exists>st'. glyph_run ttf_plain scale lh cs st = Inr st'"
proof (induction cs arbitrary: st)
  case Nil
  show ?case by (rule exI [of _ st]) simp
next
  case (Cons c cs)
  obtain x y chars where st: "st = (x, y, chars)" by (cases st) auto
  have "\<exists>st1. make_glyph ttf_plain scale lh c st = Inr st1"
    unfolding st by (simp add: make_glyph_def ttf_plain_def Let_def split: prod.splits)
  with Cons show ?case by auto
qed

lemma LoadFont_plain:
  "\<exists>f. LoadFont real_of_int world_plain file scale windowWidth windowHeight GLSLVersion =
         Some (Returns (Inr f))"
proof -
  obtain lh where lh: "lineHeight_run ttf_plain scale [32..127] 0 = Inr lh"
    using lineHeight_run_plain by blast
  obtain x y chars where g: "glyph_run ttf_plain scale lh [32..127] (margin, margin, []) = Inr (x, y, chars)"
    using glyph_run_plain by (metis prod_cases3)
  have 1: "lineHeight_loop ttf_plain scale 127 32 0 = Some (Inr lh)"
    using lh by (simp add: lineHeight_loop_run)
  have 2: "glyph_loop ttf_plain scale lh 127 32 (margin, margin, []) = Some (Inr (x, y, chars))"
    using g by (simp add: glyph_loop_run)
  show ?thesis
    by (simp add: LoadFont_def LoadTrueTypeFont_def world_plain_def 1 2 s32_def)
qed

text \<open>
  C2, as amended. \<^verbatim>\<open>LoadFont\<close> builds the font over the code points from 32 to 127
  inclusive: the table of a font it returns has 96 entries, and the entry at index \<open>i\<close>
  holds the metrics of the code point \<open>32 + i\<close>.
\<close>

theorem LoadFont_covers_32_to_127:
  assumes "LoadFont float32 w file scale windowWidth windowHeight GLSLVersion = Some (Returns (Inr f))"
  shows "length (fontChar f) = 96 \<and>
         (\<exists>data ttf. os_Open w file = Inr (Inr data) \<and> truetype_Parse w data = Inr ttf \<and>
            (\<forall>i < 96. glyph_entry ttf scale (32 + int i) (fontChar f ! i)))"
proof -
  from LoadFont_table [OF assms] obtain data ttf where
    o: "os_Open w file = Inr (Inr data)" and p: "truetype_Parse w data = Inr ttf"
    and e: "list_all2 (glyph_entry ttf scale) [32..127] (fontChar f)"
    by blast
  from e have l: "length (fontChar f) = 96"
    by (auto dest: list_all2_lengthD)
  have "glyph_entry ttf scale (32 + int i) (fontChar f ! i)" if "i < 96" for i
  proof -
    have "[32..127] ! i = 32 + int i" using that by (intro nth_upto) simp
    moreover from e that have "glyph_entry ttf scale ([32..127] ! i) (fontChar f ! i)"
      by (simp add: list_all2_conv_all_nth)
    ultimately show ?thesis by simp
  qed
  with l o p show ?thesis by blast
qed

theorem LoadFont_covers_32_to_127_witness:
  "built_table (LoadFont real_of_int world_plain ''plain.ttf'' 48 800 600 330) \<noteq> None \<and>
   map_option length (built_table (LoadFont real_of_int world_plain ''plain.ttf'' 48 800 600 330)) =
     Some 96"
proof -
  obtain f where f: "LoadFont real_of_int world_plain ''plain.ttf'' 48 800 600 330 =
      Some (Returns (Inr f))"
    using LoadFont_plain by blast
  from LoadFont_covers_32_to_127 [OF f] have "length (fontChar f) = 96" by blast
  then show ?thesis by (simp add: f built_table_def)
qed

text \<open>
  C2 as stated fails: the table does not stop at the code point 126. Loaded from the plain
  font, whose advance for a code point \<open>ch\<close> is \<open>64 * ch\<close>, it has 96 entries and the last
  one is that of the code point 127.
\<close>

theorem LoadFont_range_counterexample:
  "map_option length (built_table (LoadFont real_of_int world_plain ''plain.ttf'' 48 800 600 330)) =
     Some 96 \<and>
   map_option (\<lambda>t. advance (t ! 95))
     (built_table (LoadFont real_of_int world_plain ''plain.ttf'' 48 800 600 330)) =
     Some (64 * 127)"
proof -
  obtain f where f: "LoadFont real_of_int world_plain ''plain.ttf'' 48 800 600 330 =
      Some (Returns (Inr f))"
    using LoadFont_plain by blast
  from LoadFont_table [OF f] have
    e: "list_all2 (glyph_entry ttf_plain 48) [32..127] (fontChar f)"
    by (simp add: world_plain_def)
  then have l: "length (fontChar f) = 96" by (auto dest: list_all2_lengthD)
  have n: "[32..127] ! 95 = (127::int)" by (subst nth_upto) simp_all
  have "glyph_entry ttf_plain 48 ([32..127] ! 95) (fontChar f ! 95)"
    by (rule list_all2_nthD [OF e]) simp
  then have "glyph_entry ttf_plain 48 127 (fontChar f ! 95)"
    unfolding n .
  then have "advance (fontChar f ! 95) = 64 * 127"
    by (simp add: glyph_entry_def ttf_plain_def split: prod.splits)
  with l show ?thesis by (simp add: f built_table_def)
qed

end
